theory Spec2Isabelle
  imports Complex_Main
begin

section \<open>Python values and exceptions\<close>

text \<open>
  The pipeline of \<^verbatim>\<open>solar_parser.py\<close> works on the values that \<^verbatim>\<open>json.loads\<close> returns:
  \<^verbatim>\<open>None\<close>, \<^verbatim>\<open>bool\<close>, \<^verbatim>\<open>int\<close>, \<^verbatim>\<open>float\<close>, \<^verbatim>\<open>str\<close>, \<^verbatim>\<open>list\<close> and \<^verbatim>\<open>dict\<close> with string keys.
  A \<^verbatim>\<open>dict\<close> is an association list in insertion order (Python dicts keep it, and the
  key order of the result is what the pipeline enforces); \<^verbatim>\<open>json.loads\<close> returns dicts
  with distinct keys. A \<^verbatim>\<open>float\<close> is represented by the rational number that is its exact
  value, so only finite floats are covered (\<^verbatim>\<open>NaN\<close> and the infinities are not); how a float
  prints is floating-point formatting and is a parameter \<open>fr\<close> (for \<^verbatim>\<open>float.__repr__\<close>) of
  every function that prints values. A \<^verbatim>\<open>str\<close> is a list of code points below 256.
\<close>

datatype json =
    JNull
  | JBool bool
  | JInt int
  | JFloat rat
  | JStr string
  | JArr "json list"
  | JObj "(string \<times> json) list"

text \<open>
  Exceptions are values. \<open>exc_class\<close> lists the subclasses of \<^verbatim>\<open>Exception\<close> that occur;
  \<open>Exception c m\<close> is an instance of class \<open>c\<close> with \<^verbatim>\<open>str(e) = m\<close>. \<open>raised\<close> is what a
  call can end with instead of returning: an \<^verbatim>\<open>Exception\<close>, or one of the \<^verbatim>\<open>BaseException\<close>s
  that \<^verbatim>\<open>except Exception\<close> does not catch. The messages are those of CPython 3.11.
\<close>

datatype exc_class =
    OSError
  | FileNotFoundError
  | AttributeError
  | TypeError
  | ValueError
  | IndexError
  | KeyError
  | UnboundLocalError
  | JSONDecodeError
  | ClientError
  | OtherException string

datatype exception = Exception (exc_cls: exc_class) (exc_msg: string)

datatype raised =
    Raise exception
  | SystemExit int
  | KeyboardInterrupt


fun is_Exception :: "raised \<Rightarrow> bool" where
  "is_Exception (Raise _) = True"
| "is_Exception _ = False"

text \<open>Sequencing of calls that may raise: the first exception ends the evaluation.\<close>

definition and_then :: "'e + 'a \<Rightarrow> ('a \<Rightarrow> 'e + 'b) \<Rightarrow> 'e + 'b" where
  "and_then r f = (case r of Inl e \<Rightarrow> Inl e | Inr v \<Rightarrow> f v)"

subsection \<open>Built-in operations\<close>

fun type_name :: "json \<Rightarrow> string" where
  "type_name JNull = ''NoneType''"
| "type_name (JBool _) = ''bool''"
| "type_name (JInt _) = ''int''"
| "type_name (JFloat _) = ''float''"
| "type_name (JStr _) = ''str''"
| "type_name (JArr _) = ''list''"
| "type_name (JObj _) = ''dict''"

definition no_attribute :: "json \<Rightarrow> string \<Rightarrow> exception" where
  "no_attribute v a =
     Exception AttributeError
       ([CHR 0x27] @ type_name v @ [CHR 0x27] @ '' object has no attribute '' @
        [CHR 0x27] @ a @ [CHR 0x27])"

text \<open>\<^verbatim>\<open>x.get(k, d)\<close>: only a dict has the method.\<close>

definition dict_get :: "(string \<times> json) list \<Rightarrow> string \<Rightarrow> json \<Rightarrow> json" where
  "dict_get kvs k d = (case map_of kvs k of Some v \<Rightarrow> v | None \<Rightarrow> d)"

fun py_get :: "json \<Rightarrow> string \<Rightarrow> json \<Rightarrow> exception + json" where
  "py_get (JObj kvs) k d = Inr (dict_get kvs k d)"
| "py_get v k d = Inl (no_attribute v ''get'')"

text \<open>Truth value of a value in a condition.\<close>

fun truthy :: "json \<Rightarrow> bool" where
  "truthy JNull = False"
| "truthy (JBool b) = b"
| "truthy (JInt i) = (i \<noteq> 0)"
| "truthy (JFloat r) = (r \<noteq> 0)"
| "truthy (JStr s) = (s \<noteq> [])"
| "truthy (JArr xs) = (xs \<noteq> [])"
| "truthy (JObj kvs) = (kvs \<noteq> [])"

text \<open>Iteration: a list gives its elements, a dict its keys, a str its characters.\<close>

fun py_iter :: "json \<Rightarrow> exception + json list" where
  "py_iter (JArr xs) = Inr xs"
| "py_iter (JObj kvs) = Inr (map (\<lambda>kv. JStr (fst kv)) kvs)"
| "py_iter (JStr s) = Inr (map (\<lambda>c. JStr [c]) s)"
| "py_iter v =
     Inl (Exception TypeError
       ([CHR 0x27] @ type_name v @ [CHR 0x27] @ '' object is not iterable''))"

text \<open>\<^verbatim>\<open>x[0]\<close>.\<close>

fun py_index0 :: "json \<Rightarrow> exception + json" where
  "py_index0 (JArr []) = Inl (Exception IndexError ''list index out of range'')"
| "py_index0 (JArr (x # xs)) = Inr x"
| "py_index0 (JStr []) = Inl (Exception IndexError ''string index out of range'')"
| "py_index0 (JStr (c # cs)) = Inr (JStr [c])"
| "py_index0 (JObj kvs) = Inl (Exception KeyError ''0'')"
| "py_index0 v =
     Inl (Exception TypeError
       ([CHR 0x27] @ type_name v @ [CHR 0x27] @ '' object is not subscriptable''))"

subsection \<open>Printing\<close>

fun str_nat :: "nat \<Rightarrow> string" where
  "str_nat n =
     (if n < 10 then [''0123456789'' ! n]
      else str_nat (n div 10) @ [''0123456789'' ! (n mod 10)])"

definition str_int :: "int \<Rightarrow> string" where
  "str_int i = (if i < 0 then ''-'' @ str_nat (nat (- i)) else str_nat (nat i))"

definition hex2 :: "nat \<Rightarrow> string" where
  "hex2 n = [''0123456789abcdef'' ! (n div 16), ''0123456789abcdef'' ! (n mod 16)]"

text \<open>
  \<^verbatim>\<open>repr\<close> of a str: single quotes unless the text has a single quote and no double
  quote; the quote and the backslash are escaped, tab, newline and carriage return have
  their letters, and a code point that is not printable is written \<^verbatim>\<open>\xhh\<close>.
\<close>

definition printable :: "char \<Rightarrow> bool" where
  "printable c =
     (let n = (of_char c :: nat)
      in \<not> (n < 32 \<or> (127 \<le> n \<and> n \<le> 160) \<or> n = 173))"

definition repr_char :: "char \<Rightarrow> char \<Rightarrow> string" where
  "repr_char q c =
     (if c = q \<or> c = CHR 0x5C then [CHR 0x5C, c]
      else if c = CHR 0x09 then [CHR 0x5C, CHR ''t'']
      else if c = CHR 0x0A then [CHR 0x5C, CHR ''n'']
      else if c = CHR 0x0D then [CHR 0x5C, CHR ''r'']
      else if printable c then [c]
      else [CHR 0x5C, CHR ''x''] @ hex2 (of_char c))"

definition repr_str :: "string \<Rightarrow> string" where
  "repr_str s =
     (let q = (if CHR 0x27 \<in> set s \<and> CHR 0x22 \<notin> set s then CHR 0x22 else CHR 0x27)
      in [q] @ concat (map (repr_char q) s) @ [q])"

text \<open>\<^verbatim>\<open>sep.join(xs)\<close> on strings.\<close>

fun join :: "string \<Rightarrow> string list \<Rightarrow> string" where
  "join sep [] = []"
| "join sep [x] = x"
| "join sep (x # y # ys) = x @ sep @ join sep (y # ys)"

fun py_repr :: "(rat \<Rightarrow> string) \<Rightarrow> json \<Rightarrow> string" where
  "py_repr fr JNull = ''None''"
| "py_repr fr (JBool b) = (if b then ''True'' else ''False'')"
| "py_repr fr (JInt i) = str_int i"
| "py_repr fr (JFloat r) = fr r"
| "py_repr fr (JStr s) = repr_str s"
| "py_repr fr (JArr xs) = ''['' @ join '', '' (map (py_repr fr) xs) @ '']''"
| "py_repr fr (JObj kvs) =
     ''{'' @ join '', '' (map (\<lambda>kv. repr_str (fst kv) @ '': '' @ py_repr fr (snd kv)) kvs) @ ''}''"

text \<open>\<^verbatim>\<open>str(x)\<close>, which is also what an f-string field \<^verbatim>\<open>{x}\<close> prints.\<close>

fun py_str :: "(rat \<Rightarrow> string) \<Rightarrow> json \<Rightarrow> string" where
  "py_str fr (JStr s) = s"
| "py_str fr v = py_repr fr v"

text \<open>
  \<^verbatim>\<open>sep.join(x)\<close> on a value: every item must be a str.
\<close>

fun join_items :: "nat \<Rightarrow> json list \<Rightarrow> exception + string list" where
  "join_items i [] = Inr []"
| "join_items i (JStr s # xs) = and_then (join_items (Suc i) xs) (\<lambda>r. Inr (s # r))"
| "join_items i (v # xs) =
     Inl (Exception TypeError
       (''sequence item '' @ str_nat i @ '': expected str instance, '' @ type_name v @ '' found''))"

definition py_join :: "string \<Rightarrow> json \<Rightarrow> exception + string" where
  "py_join sep v =
     (case py_iter v of
        Inl e \<Rightarrow> Inl (Exception TypeError ''can only join an iterable'')
      | Inr xs \<Rightarrow> and_then (join_items 0 xs) (\<lambda>ss. Inr (join sep ss)))"

subsection \<open>Comparison and \<^verbatim>\<open>max\<close>\<close>

text \<open>
  \<^verbatim>\<open>bool\<close>, \<^verbatim>\<open>int\<close> and \<^verbatim>\<open>float\<close> compare with one another by value (Python compares an
  int and a float exactly); strings compare by code points, lists lexicographically;
  every other pair has no order and \<^verbatim>\<open>>\<close> raises \<^verbatim>\<open>TypeError\<close>.
\<close>

fun num_val :: "json \<Rightarrow> rat option" where
  "num_val (JBool b) = Some (if b then 1 else 0)"
| "num_val (JInt i) = Some (of_int i)"
| "num_val (JFloat r) = Some r"
| "num_val _ = None"

fun py_eq :: "json \<Rightarrow> json \<Rightarrow> bool"
  and py_eq_list :: "json list \<Rightarrow> json list \<Rightarrow> bool"
  and py_eq_items :: "(string \<times> json) list \<Rightarrow> (string \<times> json) list \<Rightarrow> bool" where
  "py_eq JNull b = (b = JNull)"
| "py_eq (JBool x) b = (num_val b = Some (if x then 1 else 0))"
| "py_eq (JInt i) b = (num_val b = Some (of_int i))"
| "py_eq (JFloat r) b = (num_val b = Some r)"
| "py_eq (JStr s) b = (b = JStr s)"
| "py_eq (JArr xs) b = (case b of JArr ys \<Rightarrow> py_eq_list xs ys | _ \<Rightarrow> False)"
| "py_eq (JObj kvs) b =
     (case b of JObj kws \<Rightarrow> length kvs = length kws \<and> py_eq_items kvs kws | _ \<Rightarrow> False)"
| "py_eq_list [] ys = (ys = [])"
| "py_eq_list (x # xs) ys = (case ys of [] \<Rightarrow> False | y # ys' \<Rightarrow> py_eq x y \<and> py_eq_list xs ys')"
| "py_eq_items [] kws = True"
| "py_eq_items (kv # kvs) kws =
     (case map_of kws (fst kv) of
        None \<Rightarrow> False
      | Some w \<Rightarrow> py_eq (snd kv) w \<and> py_eq_items kvs kws)"

fun str_gt :: "string \<Rightarrow> string \<Rightarrow> bool" where
  "str_gt [] t = False"
| "str_gt (x # xs) [] = True"
| "str_gt (x # xs) (y # ys) =
     (if x = y then str_gt xs ys else (of_char y :: nat) < of_char x)"

definition not_supported :: "json \<Rightarrow> json \<Rightarrow> exception" where
  "not_supported a b =
     Exception TypeError
       ([CHR 0x27, CHR ''>'', CHR 0x27] @ '' not supported between instances of '' @
        [CHR 0x27] @ type_name a @ [CHR 0x27] @ '' and '' @ [CHR 0x27] @ type_name b @ [CHR 0x27])"

fun py_gt :: "json \<Rightarrow> json \<Rightarrow> exception + bool"
  and py_gt_list :: "json list \<Rightarrow> json list \<Rightarrow> exception + bool" where
  "py_gt (JStr s) b = (case b of JStr t \<Rightarrow> Inr (str_gt s t) | _ \<Rightarrow> Inl (not_supported (JStr s) b))"
| "py_gt (JArr xs) b = (case b of JArr ys \<Rightarrow> py_gt_list xs ys | _ \<Rightarrow> Inl (not_supported (JArr xs) b))"
| "py_gt a b =
     (case (num_val a, num_val b) of
        (Some x, Some y) \<Rightarrow> Inr (y < x)
      | _ \<Rightarrow> Inl (not_supported a b))"
| "py_gt_list [] ys = Inr False"
| "py_gt_list (x # xs) ys =
     (case ys of
        [] \<Rightarrow> Inr True
      | y # ys' \<Rightarrow> if py_eq x y then py_gt_list xs ys' else py_gt x y)"

text \<open>
  \<^verbatim>\<open>max(xs)\<close> keeps the first item and replaces it by each later item that is greater
  (\<^verbatim>\<open>item > max_item\<close>), so among equal maxima the first one is returned.
\<close>

fun max_loop :: "json \<Rightarrow> json list \<Rightarrow> exception + json" where
  "max_loop m [] = Inr m"
| "max_loop m (x # xs) =
     (case py_gt x m of
        Inl e \<Rightarrow> Inl e
      | Inr b \<Rightarrow> max_loop (if b then x else m) xs)"

fun py_max :: "json list \<Rightarrow> exception + json" where
  "py_max [] = Inl (Exception ValueError ''max() arg is an empty sequence'')"
| "py_max (x # xs) = max_loop x xs"

subsection \<open>String methods\<close>

text \<open>The code points below 256 for which \<^verbatim>\<open>str.isspace\<close> holds; \<^verbatim>\<open>strip()\<close> removes them at both ends.\<close>

definition isspace :: "char \<Rightarrow> bool" where
  "isspace c =
     (let n = (of_char c :: nat)
      in (9 \<le> n \<and> n \<le> 13) \<or> (28 \<le> n \<and> n \<le> 32) \<or> n = 133 \<or> n = 160)"

definition strip :: "string \<Rightarrow> string" where
  "strip s = rev (dropWhile isspace (rev (dropWhile isspace s)))"

definition startswith :: "string \<Rightarrow> string \<Rightarrow> bool" where
  "startswith s p = (take (length p) s = p)"

definition endswith :: "string \<Rightarrow> string \<Rightarrow> bool" where
  "endswith s p = (length p \<le> length s \<and> drop (length s - length p) s = p)"

text \<open>\<^verbatim>\<open>str.lower\<close> on code points below 256: the ASCII and Latin-1 capital letters.\<close>

definition lower_char :: "char \<Rightarrow> char" where
  "lower_char c =
     (let n = (of_char c :: nat)
      in if (65 \<le> n \<and> n \<le> 90) \<or> (192 \<le> n \<and> n \<le> 214) \<or> (216 \<le> n \<and> n \<le> 222)
         then char_of (n + 32) else c)"

definition lower :: "string \<Rightarrow> string" where
  "lower s = map lower_char s"

text \<open>\<^verbatim>\<open>x[k]\<close> with a str key.\<close>

fun py_item :: "json \<Rightarrow> string \<Rightarrow> exception + json" where
  "py_item (JObj kvs) k =
     (case map_of kvs k of Some v \<Rightarrow> Inr v | None \<Rightarrow> Inl (Exception KeyError (repr_str k)))"
| "py_item (JArr xs) k =
     Inl (Exception TypeError ''list indices must be integers or slices, not str'')"
| "py_item (JStr s) k =
     Inl (Exception TypeError (''string indices must be integers, not '' @ [CHR 0x27] @ ''str'' @ [CHR 0x27]))"
| "py_item v k =
     Inl (Exception TypeError
       ([CHR 0x27] @ type_name v @ [CHR 0x27] @ '' object is not subscriptable''))"

section \<open>The summary: \<^verbatim>\<open>generate_summary\<close>\<close>

text \<open>
  The locals that \<^verbatim>\<open>generate_summary\<close> computes before the template. \<^verbatim>\<open>max_power\<close> is
  computed and never printed, but computing it can raise.
\<close>

definition max_power_of :: "(rat \<Rightarrow> string) \<Rightarrow> json \<Rightarrow> exception + string" where
  "max_power_of fr product =
     and_then (py_get product ''wattage_range'' JNull) (\<lambda>wr.
       if truthy wr
       then and_then (py_item product ''wattage_range'') (\<lambda>wr'.
            and_then (py_get wr' ''max'' JNull) (\<lambda>mx. Inr (py_str fr mx @ ''W'')))
       else Inr ''N/A'')"

text \<open>
  \<^verbatim>\<open>[v.get('efficiency_pct') for v in ... if v.get('efficiency_pct') is not None]\<close>
\<close>

fun efficiency_values :: "json list \<Rightarrow> exception + json list" where
  "efficiency_values [] = Inr []"
| "efficiency_values (v # vs) =
     and_then (py_get v ''efficiency_pct'' JNull) (\<lambda>c.
       if c \<noteq> JNull
       then and_then (py_get v ''efficiency_pct'' JNull) (\<lambda>e.
            and_then (efficiency_values vs) (\<lambda>r. Inr (e # r)))
       else efficiency_values vs)"

definition max_efficiency_of :: "json \<Rightarrow> exception + json" where
  "max_efficiency_of elec =
     and_then (py_get elec ''power_variants'' (JArr [])) (\<lambda>pv.
     and_then (py_iter pv) (\<lambda>vs.
     and_then (efficiency_values vs) (\<lambda>ev.
       if ev \<noteq> [] then py_max ev else Inr (JStr ''N/A''))))"

text \<open>
  The template, line by line. The fields of an f-string are evaluated from left to
  right, so the first field that raises decides the exception.
\<close>

definition header_line :: "(rat \<Rightarrow> string) \<Rightarrow> json \<Rightarrow> exception + string" where
  "header_line fr product =
     and_then (py_get product ''manufacturer'' (JStr ''Unknown'')) (\<lambda>m.
     and_then (py_get product ''series'' (JStr ''Solar Module'')) (\<lambda>s.
       Inr (''**'' @ py_str fr m @ '' '' @ py_str fr s @ ''**'')))"

definition models_line :: "json \<Rightarrow> exception + string" where
  "models_line product =
     and_then (py_get product ''model_types'' (JArr [])) (\<lambda>mt.
     and_then (py_join '', '' mt) (\<lambda>j.
       Inr (''*Models*: '' @ j)))"

definition power_range_line :: "(rat \<Rightarrow> string) \<Rightarrow> json \<Rightarrow> exception + string" where
  "power_range_line fr product =
     and_then (py_get product ''wattage_range'' (JObj [])) (\<lambda>wr.
     and_then (py_get wr ''min'' JNull) (\<lambda>mn.
     and_then (py_get product ''wattage_range'' (JObj [])) (\<lambda>wr'.
     and_then (py_get wr' ''max'' JNull) (\<lambda>mx.
       Inr (''*Power Range*: '' @ py_str fr mn @ ''W - '' @ py_str fr mx @ ''W'')))))"

definition efficiency_line :: "(rat \<Rightarrow> string) \<Rightarrow> json \<Rightarrow> string" where
  "efficiency_line fr max_efficiency =
     ''- **Efficiency**: Up to '' @ py_str fr max_efficiency @ ''%''"

definition voltage_line :: "(rat \<Rightarrow> string) \<Rightarrow> json \<Rightarrow> exception + string" where
  "voltage_line fr elec =
     and_then (py_get elec ''max_system_voltage_v'' JNull) (\<lambda>v.
       Inr (''- **Max System Voltage**: '' @ py_str fr v @ ''V''))"

definition dimensions_line :: "(rat \<Rightarrow> string) \<Rightarrow> json \<Rightarrow> exception + string" where
  "dimensions_line fr mech =
     and_then (py_get mech ''length_mm'' JNull) (\<lambda>l.
     and_then (py_get mech ''width_mm'' JNull) (\<lambda>w.
       Inr (''- **Dimensions**: '' @ py_str fr l @ ''mm x '' @ py_str fr w @ ''mm'')))"

definition weight_line :: "(rat \<Rightarrow> string) \<Rightarrow> json \<Rightarrow> exception + string" where
  "weight_line fr mech =
     and_then (py_get mech ''weight_kg'' JNull) (\<lambda>w.
       Inr (''- **Weight**: '' @ py_str fr w @ ''kg''))"

definition cell_type_line :: "(rat \<Rightarrow> string) \<Rightarrow> json \<Rightarrow> exception + string" where
  "cell_type_line fr mech =
     and_then (py_get mech ''cell_type'' JNull) (\<lambda>c.
       Inr (''- **Cell Type**: '' @ py_str fr c))"

definition operating_temp_line :: "(rat \<Rightarrow> string) \<Rightarrow> json \<Rightarrow> exception + string" where
  "operating_temp_line fr temp =
     and_then (py_get temp ''operating_range_c'' (JObj [])) (\<lambda>r.
     and_then (py_get r ''min'' JNull) (\<lambda>mn.
     and_then (py_get temp ''operating_range_c'' (JObj [])) (\<lambda>r'.
     and_then (py_get r' ''max'' JNull) (\<lambda>mx.
       Inr (''- **Operating Temp**: '' @ py_str fr mn @ [CHR 0xB0] @ ''C to '' @
            py_str fr mx @ [CHR 0xB0] @ ''C'')))))"

definition temp_coefficient_line :: "(rat \<Rightarrow> string) \<Rightarrow> json \<Rightarrow> exception + string" where
  "temp_coefficient_line fr temp =
     and_then (py_get temp ''temp_coefficient_pmax_pct_per_c'' JNull) (\<lambda>c.
       Inr (''- **Temperature Coefficient (Pmax)**: '' @ py_str fr c @ ''%/'' @ [CHR 0xB0] @ ''C''))"

definition warranty_line :: "(rat \<Rightarrow> string) \<Rightarrow> json \<Rightarrow> exception + string" where
  "warranty_line fr warranty =
     and_then (py_get warranty ''years'' JNull) (\<lambda>y.
     and_then (py_get warranty ''degradation_rate_pct'' JNull) (\<lambda>d.
       Inr (''- **Warranty**: '' @ py_str fr y @ '' Years ('' @ py_str fr d @
            ''% degradation/year)'')))"

text \<open>The text of the template: every line, the empty first one included, ends with a newline.\<close>

definition unlines :: "string list \<Rightarrow> string" where
  "unlines ls = concat (map (\<lambda>l. l @ [CHR 0x0A]) ls)"

definition format_summary ::
  "(rat \<Rightarrow> string) \<Rightarrow> json \<Rightarrow> json \<Rightarrow> json \<Rightarrow> json \<Rightarrow> json \<Rightarrow> json \<Rightarrow> exception + string" where
  "format_summary fr product elec mech temp warranty max_efficiency =
     and_then (header_line fr product) (\<lambda>l3.
     and_then (models_line product) (\<lambda>l4.
     and_then (power_range_line fr product) (\<lambda>l5.
     and_then (voltage_line fr elec) (\<lambda>l9.
     and_then (dimensions_line fr mech) (\<lambda>l10.
     and_then (weight_line fr mech) (\<lambda>l11.
     and_then (cell_type_line fr mech) (\<lambda>l12.
     and_then (operating_temp_line fr temp) (\<lambda>l15.
     and_then (temp_coefficient_line fr temp) (\<lambda>l16.
     and_then (warranty_line fr warranty) (\<lambda>l17.
       Inr (unlines
         [[],
          ''## Product Overview'',
          l3,
          l4,
          l5,
          [],
          ''## Key Specifications'',
          efficiency_line fr max_efficiency,
          l9,
          l10,
          l11,
          l12,
          [],
          ''## Performance & Warranty'',
          l15,
          l16,
          l17])))))))))))"

text \<open>The body of the \<^verbatim>\<open>try\<close> block of \<^verbatim>\<open>generate_summary\<close>.\<close>

definition summary_body :: "(rat \<Rightarrow> string) \<Rightarrow> json \<Rightarrow> exception + string" where
  "summary_body fr data =
     and_then (py_get data ''product'' (JObj [])) (\<lambda>product.
     and_then (py_get data ''electrical_specs'' (JObj [])) (\<lambda>elec.
     and_then (py_get data ''mechanical_specs'' (JObj [])) (\<lambda>mech.
     and_then (py_get data ''temperature_specs'' (JObj [])) (\<lambda>temp.
     and_then (py_get data ''warranty'' (JObj [])) (\<lambda>warranty.
     and_then (max_power_of fr product) (\<lambda>max_power.
     and_then (max_efficiency_of elec) (\<lambda>max_efficiency.
       format_summary fr product elec mech temp warranty max_efficiency)))))))"

text \<open>
  \<^verbatim>\<open>except Exception as e: return f"Error generating summary: {str(e)}"\<close>: every
  exception of the body is caught, so the function always returns a string.
\<close>

definition generate_summary :: "(rat \<Rightarrow> string) \<Rightarrow> json \<Rightarrow> string" where
  "generate_summary fr data =
     (case summary_body fr data of
        Inr summary \<Rightarrow> summary
      | Inl e \<Rightarrow> ''Error generating summary: '' @ exc_msg e)"

section \<open>The environment\<close>

text \<open>
  What the pipeline calls and does not define is a parameter. A page of an opened PDF is
  what its \<^verbatim>\<open>extract_text()\<close> does: raise, return \<^verbatim>\<open>None\<close> or return a str.
  \<open>pdf_open env n path\<close> is what \<^verbatim>\<open>pdfplumber.open(path)\<close> does when \<open>n\<close> calls of it
  came before: the file system can change between two calls. \<open>invoke_model env text\<close> is
  the body of the response of the hosted model to the request built from the datasheet
  text (the prompt and the request parameters are constants of the source, so the
  request is determined by the text). \<open>json_loads env\<close> is \<^verbatim>\<open>json.loads\<close>, with the
  message of the \<^verbatim>\<open>JSONDecodeError\<close> when the text is not JSON, and \<open>float_repr env\<close> is
  \<^verbatim>\<open>float.__repr__\<close>.
\<close>

type_synonym page = "raised + string option"

record env =
  path_exists :: "string \<Rightarrow> bool"
  pdf_open :: "nat \<Rightarrow> string \<Rightarrow> raised + page list"
  boto3_client :: "raised option"
  invoke_model :: "string \<Rightarrow> raised + string"
  json_loads :: "string \<Rightarrow> string + json"
  float_repr :: "rat \<Rightarrow> string"
  mkstemp :: "raised + string"
  save_upload :: "string \<Rightarrow> raised option"

text \<open>
  The effects of a run: how often a PDF was opened, the texts of the requests made to the
  model, the lines printed on standard error and the files removed. What is printed on
  standard output (progress lines, the traceback that \<^verbatim>\<open>upload_file\<close> prints) is not
  recorded.
\<close>

record world =
  opens :: nat
  requests :: "string list"
  stderr :: "string list"
  removed :: "string list"

definition print_err :: "string \<Rightarrow> world \<Rightarrow> world" where
  "print_err line w = w\<lparr>stderr := stderr w @ [line]\<rparr>"

definition loads :: "env \<Rightarrow> string \<Rightarrow> exception + json" where
  "loads env s =
     (case json_loads env s of
        Inl m \<Rightarrow> Inl (Exception JSONDecodeError m)
      | Inr v \<Rightarrow> Inr v)"

section \<open>Text extraction: \<^verbatim>\<open>extract_text_from_pdf\<close>\<close>

text \<open>\<^verbatim>\<open>for page in pdf.pages: text += page.extract_text() + "\n"\<close>\<close>

fun extract_pages :: "page list \<Rightarrow> string \<Rightarrow> raised + string" where
  "extract_pages [] text = Inr text"
| "extract_pages (p # ps) text =
     (case p of
        Inl r \<Rightarrow> Inl r
      | Inr None \<Rightarrow>
          Inl (Raise (Exception TypeError
            (''unsupported operand type(s) for +: '' @ [CHR 0x27] @ ''NoneType'' @ [CHR 0x27] @
             '' and '' @ [CHR 0x27] @ ''str'' @ [CHR 0x27])))
      | Inr (Some t) \<Rightarrow> extract_pages ps (text @ t @ [CHR 0x0A]))"

text \<open>
  Every \<^verbatim>\<open>Exception\<close> of the \<^verbatim>\<open>try\<close> block is printed and turned into \<^verbatim>\<open>sys.exit(1)\<close>,
  which raises \<^verbatim>\<open>SystemExit\<close>.
\<close>

definition extract_text_from_pdf :: "env \<Rightarrow> string \<Rightarrow> world \<Rightarrow> (raised + string) \<times> world" where
  "extract_text_from_pdf env pdf_path w =
     (let w1 = w\<lparr>opens := Suc (opens w)\<rparr>
      in case and_then (pdf_open env (opens w) pdf_path) (\<lambda>pages. extract_pages pages []) of
           Inr text \<Rightarrow> (Inr text, w1)
         | Inl (Raise e) \<Rightarrow>
             (Inl (SystemExit 1),
              print_err (''Error reading PDF '' @ pdf_path @ '': '' @ exc_msg e) w1)
         | Inl r \<Rightarrow> (Inl r, w1))"

section \<open>The model client: \<^verbatim>\<open>parse_with_bedrock\<close>\<close>

definition fence_open :: string where
  "fence_open = [CHR 0x60, CHR 0x60, CHR 0x60] @ ''json''"

definition fence_close :: string where
  "fence_close = [CHR 0x60, CHR 0x60, CHR 0x60]"

text \<open>
  \<^verbatim>\<open>clean_json_text = result_text.strip()\<close>, then \<^verbatim>\<open>[7:]\<close> when it starts with the opening
  fence and \<^verbatim>\<open>[:-3]\<close> when it ends with the closing fence.
\<close>

definition clean_fences :: "string \<Rightarrow> string" where
  "clean_fences result_text =
     (let c0 = strip result_text;
          c1 = (if startswith c0 fence_open then drop 7 c0 else c0);
          c2 = (if endswith c1 fence_close then take (length c1 - 3) c1 else c1)
      in c2)"

text \<open>\<^verbatim>\<open>response_body.get('content')[0].get('text')\<close>\<close>

definition result_text_of :: "json \<Rightarrow> exception + json" where
  "result_text_of response_body =
     and_then (py_get response_body ''content'' JNull) (\<lambda>c.
     and_then (py_index0 c) (\<lambda>c0. py_get c0 ''text'' JNull))"

text \<open>
  The \<^verbatim>\<open>try\<close> block. An exception is returned with the binding of the local
  \<^verbatim>\<open>result_text\<close> at that point (\<open>None\<close> when it is not yet assigned), which one of the
  handlers reads.
\<close>

definition bedrock_try :: "env \<Rightarrow> string \<Rightarrow> (raised \<times> json option) + json" where
  "bedrock_try env text =
     (case invoke_model env text of
        Inl r \<Rightarrow> Inl (r, None)
      | Inr body \<Rightarrow>
         (case loads env body of
            Inl e \<Rightarrow> Inl (Raise e, None)
          | Inr response_body \<Rightarrow>
             (case result_text_of response_body of
                Inl e \<Rightarrow> Inl (Raise e, None)
              | Inr result_text \<Rightarrow>
                 (case result_text of
                    JStr t \<Rightarrow>
                      (case loads env (clean_fences t) of
                         Inl e \<Rightarrow> Inl (Raise e, Some result_text)
                       | Inr v \<Rightarrow> Inr v)
                  | _ \<Rightarrow> Inl (Raise (no_attribute result_text ''strip''), Some result_text)))))"

text \<open>
  The handlers, in the order of the source. The handler of \<^verbatim>\<open>JSONDecodeError\<close> prints
  \<^verbatim>\<open>result_text\<close>: when the exception came from the first \<^verbatim>\<open>json.loads\<close> the local is
  not assigned, and reading it raises \<^verbatim>\<open>UnboundLocalError\<close> out of the function (a
  handler's own exception is not caught by a later handler of the same \<^verbatim>\<open>try\<close>).
  \<^verbatim>\<open>boto3.client(...)\<close> is called before the \<^verbatim>\<open>try\<close> block.
\<close>

definition parse_with_bedrock :: "env \<Rightarrow> string \<Rightarrow> world \<Rightarrow> (raised + json) \<times> world" where
  "parse_with_bedrock env text w =
     (case boto3_client env of
        Some r \<Rightarrow> (Inl r, w)
      | None \<Rightarrow>
         (let w1 = w\<lparr>requests := requests w @ [text]\<rparr>
          in case bedrock_try env text of
               Inr v \<Rightarrow> (Inr v, w1)
             | Inl (Raise (Exception ClientError m), rt) \<Rightarrow>
                 (Inl (SystemExit 1), print_err (''AWS Bedrock API Error: '' @ m) w1)
             | Inl (Raise (Exception JSONDecodeError m), rt) \<Rightarrow>
                 (let w2 = print_err (''Failed to parse JSON response from model: '' @ m) w1
                  in case rt of
                       None \<Rightarrow>
                         (Inl (Raise (Exception UnboundLocalError
                            (''cannot access local variable '' @ [CHR 0x27] @ ''result_text'' @
                             [CHR 0x27] @ '' where it is not associated with a value''))), w2)
                     | Some t \<Rightarrow>
                         (Inl (SystemExit 1),
                          print_err (''Raw response: '' @ py_str (float_repr env) t) w2))
             | Inl (Raise (Exception c m), rt) \<Rightarrow>
                 (Inl (SystemExit 1), print_err (''An unexpected error occurred: '' @ m) w1)
             | Inl (r, rt) \<Rightarrow> (Inl r, w1)))"

section \<open>The pipeline: \<^verbatim>\<open>process_pdf\<close>\<close>

definition ordered_keys :: "string list" where
  "ordered_keys =
     [''product'', ''electrical_specs'', ''mechanical_specs'', ''temperature_specs'',
      ''warranty'', ''certifications'']"

text \<open>\<^verbatim>\<open>k in x\<close>: a key of a dict, an item of a list, a substring of a str.\<close>

fun is_substring :: "string \<Rightarrow> string \<Rightarrow> bool" where
  "is_substring k [] = (k = [])"
| "is_substring k (c # cs) = (startswith (c # cs) k \<or> is_substring k cs)"

fun py_contains :: "json \<Rightarrow> string \<Rightarrow> exception + bool" where
  "py_contains (JObj kvs) k = Inr (map_of kvs k \<noteq> None)"
| "py_contains (JArr xs) k = Inr (list_ex (\<lambda>x. py_eq x (JStr k)) xs)"
| "py_contains (JStr s) k = Inr (is_substring k s)"
| "py_contains v k =
     Inl (Exception TypeError
       (''argument of type '' @ [CHR 0x27] @ type_name v @ [CHR 0x27] @ '' is not iterable''))"

text \<open>\<^verbatim>\<open>{k: raw_json.get(k) for k in ordered_keys if k in raw_json}\<close>\<close>

fun key_order :: "json \<Rightarrow> string list \<Rightarrow> exception + (string \<times> json) list" where
  "key_order raw_json [] = Inr []"
| "key_order raw_json (k # ks) =
     and_then (py_contains raw_json k) (\<lambda>b.
       if b
       then and_then (py_get raw_json k JNull) (\<lambda>v.
            and_then (key_order raw_json ks) (\<lambda>rest. Inr ((k, v) # rest)))
       else key_order raw_json ks)"

definition process_pdf ::
  "env \<Rightarrow> string \<Rightarrow> world \<Rightarrow> (raised + json \<times> string) \<times> world" where
  "process_pdf env pdf_path w =
     (if \<not> path_exists env pdf_path
      then (Inl (Raise (Exception FileNotFoundError (''File not found: '' @ pdf_path))), w)
      else
       (case extract_text_from_pdf env pdf_path w of
          (Inl r, w1) \<Rightarrow> (Inl r, w1)
        | (Inr first_text, w1) \<Rightarrow>
           (case extract_text_from_pdf env pdf_path w1 of
              (Inl r, w2) \<Rightarrow> (Inl r, w2)
            | (Inr text_content, w2) \<Rightarrow>
               (case parse_with_bedrock env text_content w2 of
                  (Inl r, w3) \<Rightarrow> (Inl r, w3)
                | (Inr raw_json, w3) \<Rightarrow>
                   (case key_order raw_json ordered_keys of
                      Inl e \<Rightarrow> (Inl (Raise e), w3)
                    | Inr kvs \<Rightarrow>
                       (let json_output = JObj kvs;
                            summary = generate_summary (float_repr env) json_output
                        in (Inr (json_output, summary), w3)))))))"

section \<open>The web entry point: \<^verbatim>\<open>upload_file\<close>\<close>

text \<open>
  A request carries at most one part named \<^verbatim>\<open>file\<close>; of the part only the file name is
  read. A response is a status and the JSON body that \<^verbatim>\<open>jsonify\<close> builds.
  \<open>mkstemp env\<close> is \<^verbatim>\<open>tempfile.mkstemp\<close> and \<open>save_upload env\<close> is \<^verbatim>\<open>file.save\<close>.
\<close>

record upload =
  filename :: string

datatype response = Response nat json

definition error_envelope :: "nat \<Rightarrow> string \<Rightarrow> response" where
  "error_envelope status message = Response status (JObj [(''error'', JStr message)])"

text \<open>The \<^verbatim>\<open>try\<close> block of \<^verbatim>\<open>upload_file\<close>, with the binding of \<^verbatim>\<open>temp_path\<close> when it ends.\<close>

definition upload_try ::
  "env \<Rightarrow> world \<Rightarrow> (raised + response) \<times> string option \<times> world" where
  "upload_try env w =
     (case mkstemp env of
        Inl r \<Rightarrow> (Inl r, None, w)
      | Inr temp_path \<Rightarrow>
         (case save_upload env temp_path of
            Some r \<Rightarrow> (Inl r, Some temp_path, w)
          | None \<Rightarrow>
             (case process_pdf env temp_path w of
                (Inl r, w1) \<Rightarrow> (Inl r, Some temp_path, w1)
              | (Inr (json_data, summary), w1) \<Rightarrow>
                 (Inr (Response 200
                    (JObj [(''success'', JBool True), (''data'', json_data),
                           (''summary'', JStr summary)])),
                  Some temp_path, w1))))"

text \<open>
  \<^verbatim>\<open>except Exception as e: return jsonify({'error': str(e)}), 500\<close> and the \<^verbatim>\<open>finally\<close>
  clause, which removes the temporary file on every way out.
\<close>

definition upload_file ::
  "env \<Rightarrow> upload option \<Rightarrow> world \<Rightarrow> (raised + response) \<times> world" where
  "upload_file env file_part w =
     (case file_part of
        None \<Rightarrow> (Inr (error_envelope 400 ''No file part''), w)
      | Some file \<Rightarrow>
         if filename file = [] then (Inr (error_envelope 400 ''No selected file''), w)
         else if filename file \<noteq> [] \<and> endswith (lower (filename file)) ''.pdf''
         then
           (case upload_try env w of
              (r, temp_path, w1) \<Rightarrow>
               (let w2 =
                      (case temp_path of
                         None \<Rightarrow> w1
                       | Some p \<Rightarrow>
                           if p \<noteq> [] \<and> path_exists env p
                           then w1\<lparr>removed := removed w1 @ [p]\<rparr> else w1)
                in case r of
                     Inl (Raise e) \<Rightarrow> (Inr (error_envelope 500 (exc_msg e)), w2)
                   | _ \<Rightarrow> (r, w2)))
         else (Inr (error_envelope 400 ''Invalid file type. Please upload a PDF.''), w))"

section \<open>Definitions used to state the properties\<close>

text \<open>
  The pipeline with the text extracted once: \<^verbatim>\<open>process_pdf\<close> without its first,
  discarded call of \<^verbatim>\<open>extract_text_from_pdf\<close>.
\<close>

definition process_pdf_once ::
  "env \<Rightarrow> string \<Rightarrow> world \<Rightarrow> (raised + json \<times> string) \<times> world" where
  "process_pdf_once env pdf_path w =
     (if \<not> path_exists env pdf_path
      then (Inl (Raise (Exception FileNotFoundError (''File not found: '' @ pdf_path))), w)
      else
       (case extract_text_from_pdf env pdf_path w of
          (Inl r, w1) \<Rightarrow> (Inl r, w1)
        | (Inr text_content, w1) \<Rightarrow>
           (case parse_with_bedrock env text_content w1 of
              (Inl r, w3) \<Rightarrow> (Inl r, w3)
            | (Inr raw_json, w3) \<Rightarrow>
               (case key_order raw_json ordered_keys of
                  Inl e \<Rightarrow> (Inl (Raise e), w3)
                | Inr kvs \<Rightarrow>
                   (let json_output = JObj kvs;
                        summary = generate_summary (float_repr env) json_output
                    in (Inr (json_output, summary), w3))))))"

text \<open>
  The data model of a power variant: a record whose \<^verbatim>\<open>efficiency_pct\<close> is absent, null or
  a number. \<open>efficiencies vs\<close> are the values that are not null, in the order of the
  variants, and \<open>number_value\<close> is the value of a number.
\<close>

fun is_number :: "json \<Rightarrow> bool" where
  "is_number (JInt i) = True"
| "is_number (JFloat r) = True"
| "is_number v = False"

fun variant_ok :: "json \<Rightarrow> bool" where
  "variant_ok (JObj f) =
     (case map_of f ''efficiency_pct'' of
        None \<Rightarrow> True
      | Some x \<Rightarrow> x = JNull \<or> is_number x)"
| "variant_ok v = False"

fun efficiency_of :: "json \<Rightarrow> json" where
  "efficiency_of (JObj f) = (case map_of f ''efficiency_pct'' of None \<Rightarrow> JNull | Some x \<Rightarrow> x)"
| "efficiency_of v = JNull"

definition efficiencies :: "json list \<Rightarrow> json list" where
  "efficiencies vs = filter (\<lambda>x. x \<noteq> JNull) (map efficiency_of vs)"

definition number_value :: "json \<Rightarrow> rat" where
  "number_value v = (case num_val v of Some r \<Rightarrow> r | None \<Rightarrow> 0)"

text \<open>The summary of a record with no fields: every placeholder of the template.\<close>

definition default_summary :: string where
  "default_summary =
     unlines
       [[],
        ''## Product Overview'',
        ''**Unknown Solar Module**'',
        ''*Models*: '',
        ''*Power Range*: NoneW - NoneW'',
        [],
        ''## Key Specifications'',
        ''- **Efficiency**: Up to N/A%'',
        ''- **Max System Voltage**: NoneV'',
        ''- **Dimensions**: Nonemm x Nonemm'',
        ''- **Weight**: Nonekg'',
        ''- **Cell Type**: None'',
        [],
        ''## Performance & Warranty'',
        ''- **Operating Temp**: None'' @ [CHR 0xB0] @ ''C to None'' @ [CHR 0xB0] @ ''C'',
        ''- **Temperature Coefficient (Pmax)**: None%/'' @ [CHR 0xB0] @ ''C'',
        ''- **Warranty**: None Years (None% degradation/year)'']"








text \<open>
  A record whose parts other than \<^verbatim>\<open>product.wattage_range\<close> have the shapes of the data
  model, each part absent or as follows: \<^verbatim>\<open>product\<close> a record with a list of strings
  as \<^verbatim>\<open>model_types\<close>, \<^verbatim>\<open>electrical_specs\<close> a record with a list of power variants,
  \<^verbatim>\<open>mechanical_specs\<close> and \<^verbatim>\<open>warranty\<close> records, \<^verbatim>\<open>temperature_specs\<close> a record with a
  record as \<^verbatim>\<open>operating_range_c\<close>.
\<close>

fun is_obj :: "json \<Rightarrow> bool" where
  "is_obj (JObj kvs) = True"
| "is_obj v = False"

fun is_str :: "json \<Rightarrow> bool" where
  "is_str (JStr s) = True"
| "is_str v = False"

fun is_str_list :: "json \<Rightarrow> bool" where
  "is_str_list (JArr xs) = list_all is_str xs"
| "is_str_list v = False"

fun is_variant_list :: "json \<Rightarrow> bool" where
  "is_variant_list (JArr vs) = list_all variant_ok vs"
| "is_variant_list v = False"

definition shape_ok :: "(string \<times> json) list \<Rightarrow> bool" where
  "shape_ok d =
     ((case dict_get d ''product'' (JObj []) of
         JObj p \<Rightarrow> is_str_list (dict_get p ''model_types'' (JArr []))
       | _ \<Rightarrow> False)
    \<and> (case dict_get d ''electrical_specs'' (JObj []) of
         JObj e \<Rightarrow> is_variant_list (dict_get e ''power_variants'' (JArr []))
       | _ \<Rightarrow> False)
    \<and> is_obj (dict_get d ''mechanical_specs'' (JObj []))
    \<and> (case dict_get d ''temperature_specs'' (JObj []) of
         JObj t \<Rightarrow> is_obj (dict_get t ''operating_range_c'' (JObj []))
       | _ \<Rightarrow> False)
    \<and> is_obj (dict_get d ''warranty'' (JObj [])))"

subsection \<open>Example environments\<close>

text \<open>
  An environment in which every step succeeds: the PDF has one page, the model answers
  with the text \<open>completion\<close>, and \<^verbatim>\<open>json.loads\<close> reads the cleaned completion as \<open>v\<close>.
  The two floats of the examples print as Python prints them.
\<close>

definition example_float_repr :: "rat \<Rightarrow> string" where
  "example_float_repr r =
     (if r = 45 / 2 then ''22.5''
      else if r = 5967269506265907 / 281474976710656 then ''21.2''
      else ''?'')"

definition example_env :: "string \<Rightarrow> json \<Rightarrow> env" where
  "example_env completion v =
     \<lparr> path_exists = (\<lambda>p. True),
       pdf_open = (\<lambda>n p. Inr [Inr (Some ''Module 400 W'')]),
       boto3_client = None,
       invoke_model = (\<lambda>t. Inr ''body''),
       json_loads = (\<lambda>s.
         if s = ''body'' then Inr (JObj [(''content'', JArr [JObj [(''text'', JStr completion)]])])
         else if s = clean_fences completion then Inr v
         else Inl ''Expecting value''),
       float_repr = example_float_repr,
       mkstemp = Inr ''/tmp/tmpa1.pdf'',
       save_upload = (\<lambda>p. None) \<rparr>"

text \<open>The same environment with a file that \<^verbatim>\<open>pdfplumber\<close> cannot parse.\<close>

definition corrupt_pdf_env :: env where
  "corrupt_pdf_env =
     (example_env ''{}'' (JObj []))
       \<lparr> pdf_open := (\<lambda>n p. Inl (Raise (Exception (OtherException ''PDFSyntaxError'')
            ''No /Root object! - Is this really a PDF?''))) \<rparr>"

text \<open>The same environment with a model endpoint that throttles the request.\<close>

definition throttled_env :: env where
  "throttled_env =
     (example_env ''{}'' (JObj []))
       \<lparr> invoke_model := (\<lambda>t. Inl (Raise (Exception ClientError
            ''An error occurred (ThrottlingException) when calling the InvokeModel operation: Too many requests''))) \<rparr>"



definition world0 :: world where
  "world0 = \<lparr> opens = 0, requests = [], stderr = [], removed = [] \<rparr>"

section \<open>Auxiliary lemmas\<close>

lemmas line_defs =
  header_line_def models_line_def power_range_line_def efficiency_line_def voltage_line_def
  dimensions_line_def weight_line_def cell_type_line_def operating_temp_line_def
  temp_coefficient_line_def warranty_line_def



lemma example_extract:
  "extract_text_from_pdf (example_env c v) p w =
     (Inr (''Module 400 W'' @ [CHR 0x0A]), w\<lparr>opens := Suc (opens w)\<rparr>)"
  by (simp add: extract_text_from_pdf_def example_env_def and_then_def)

lemma example_parse:
  "clean_fences c \<noteq> ''body'' \<Longrightarrow>
   parse_with_bedrock (example_env c v) t w = (Inr v, w\<lparr>requests := requests w @ [t]\<rparr>)"
  by (simp add: parse_with_bedrock_def bedrock_try_def result_text_of_def example_env_def loads_def and_then_def
      dict_get_def)

lemma clean_braces: "clean_fences ''{}'' = ''{}''"
  by (simp add: clean_fences_def strip_def isspace_def startswith_def endswith_def
      fence_open_def fence_close_def)



section \<open>The canonical result\<close>



section \<open>Fence stripping\<close>



lemma example_run_steps:
  "path_exists (example_env c v) p"
  "extract_text_from_pdf (example_env c v) p world0
     = (Inr (''Module 400 W'' @ [CHR 0x0A]), world0\<lparr>opens := 1\<rparr>)"
  "extract_text_from_pdf (example_env c v) p (world0\<lparr>opens := 1\<rparr>)
     = (Inr (''Module 400 W'' @ [CHR 0x0A]), world0\<lparr>opens := 2\<rparr>)"
  "clean_fences c \<noteq> ''body'' \<Longrightarrow>
   parse_with_bedrock (example_env c v) (''Module 400 W'' @ [CHR 0x0A]) (world0\<lparr>opens := 2\<rparr>)
     = (Inr v, \<lparr>opens = 2, requests = [''Module 400 W'' @ [CHR 0x0A]], stderr = [], removed = []\<rparr>)"
  by (simp_all add: example_extract example_parse world0_def) (simp add: example_env_def)

section \<open>The summary of an empty record\<close>

lemma summary_empty: "summary_body fr (JObj []) = Inr default_summary"
  by (simp add: summary_body_def format_summary_def max_power_of_def max_efficiency_of_def
      line_defs and_then_def dict_get_def py_join_def default_summary_def)

text \<open>
  C7. When the model returns the empty object, the canonical result is the empty object
  and the body of \<^verbatim>\<open>generate_summary\<close> does not raise: the summary is the template
  with its placeholders, \<^verbatim>\<open>Unknown\<close> for the manufacturer and \<^verbatim>\<open>Solar Module\<close> for the
  series in the header line.
\<close>

theorem C7_empty_output:
  assumes "path_exists env p"
    and "extract_text_from_pdf env p w = (Inr t1, w1)"
    and "extract_text_from_pdf env p w1 = (Inr t2, w2)"
    and "parse_with_bedrock env t2 w2 = (Inr (JObj []), w3)"
  shows "process_pdf env p w = (Inr (JObj [], default_summary), w3)
       \<and> summary_body (float_repr env) (JObj []) = Inr default_summary
       \<and> header_line (float_repr env) (JObj []) = Inr ''**Unknown Solar Module**''"
  using assms
  by (simp add: process_pdf_def ordered_keys_def and_then_def generate_summary_def summary_empty
      header_line_def dict_get_def)

theorem C7_empty_output_witness:
  "process_pdf (example_env ''{}'' (JObj [])) ''a.pdf'' world0
     = (Inr (JObj [], default_summary),
        \<lparr>opens = 2, requests = [''Module 400 W'' @ [CHR 0x0A]], stderr = [], removed = []\<rparr>)
   \<and> summary_body (float_repr (example_env ''{}'' (JObj []))) (JObj []) = Inr default_summary
   \<and> header_line (float_repr (example_env ''{}'' (JObj []))) (JObj [])
       = Inr ''**Unknown Solar Module**''"
  using C7_empty_output [OF example_run_steps(1-3) example_run_steps(4) [of "''{}''"]]
  by (simp add: clean_braces)

section \<open>The lines of a summary\<close>

lemma summary_body_lines:
  assumes "summary_body fr (JObj d) = Inr s"
  shows "\<exists>l3 l4 l5 m l9 l10 l11 l12 l15 l16 l17.
           header_line fr (dict_get d ''product'' (JObj [])) = Inr l3
         \<and> models_line (dict_get d ''product'' (JObj [])) = Inr l4
         \<and> power_range_line fr (dict_get d ''product'' (JObj [])) = Inr l5
         \<and> max_efficiency_of (dict_get d ''electrical_specs'' (JObj [])) = Inr m
         \<and> s = unlines [[], ''## Product Overview'', l3, l4, l5, [], ''## Key Specifications'',
                  efficiency_line fr m, l9, l10, l11, l12, [], ''## Performance & Warranty'',
                  l15, l16, l17]"
  using assms
  by (auto simp: summary_body_def format_summary_def and_then_def split: sum.splits) blast

lemma summary_has_power_range_line:
  assumes "summary_body fr (JObj d) = Inr s"
  shows "\<exists>line pre post. power_range_line fr (dict_get d ''product'' (JObj [])) = Inr line
          \<and> s = pre @ line @ [CHR 0x0A] @ post"
proof -
  from summary_body_lines [OF assms] obtain l3 l4 l5 m l9 l10 l11 l12 l15 l16 l17 where
    l5: "power_range_line fr (dict_get d ''product'' (JObj [])) = Inr l5"
    and s: "s = unlines [[], ''## Product Overview'', l3, l4, l5, [], ''## Key Specifications'',
                  efficiency_line fr m, l9, l10, l11, l12, [], ''## Performance & Warranty'',
                  l15, l16, l17]"
    by blast
  have "s = unlines [[], ''## Product Overview'', l3, l4] @ l5 @ [CHR 0x0A] @
     unlines [[], ''## Key Specifications'',
                  efficiency_line fr m, l9, l10, l11, l12, [], ''## Performance & Warranty'',
                  l15, l16, l17]"
    unfolding s by (simp add: unlines_def)
  with l5 show ?thesis by blast
qed


section \<open>The power range line\<close>

text \<open>
  C8. In a summary that is produced, the power range line is \<^verbatim>\<open>*Power Range*: \<close>, the
  minimum, \<^verbatim>\<open>W - \<close>, the maximum and \<^verbatim>\<open>W\<close>. When \<^verbatim>\<open>wattage_range\<close> is absent from the
  product, both values are the text \<^verbatim>\<open>None\<close>; when it is a record, each of \<^verbatim>\<open>min\<close> and
  \<^verbatim>\<open>max\<close> that is absent from it is the text \<^verbatim>\<open>None\<close> and each one present is printed
  as \<^verbatim>\<open>str\<close> prints it.
\<close>


theorem C8_power_range_none:
  assumes "summary_body fr (JObj d) = Inr s"
    and "dict_get d ''product'' (JObj []) = JObj p"
  shows "(map_of p ''wattage_range'' = None \<longrightarrow>
            power_range_line fr (JObj p) = Inr ''*Power Range*: NoneW - NoneW'')
       \<and> (\<forall>r. map_of p ''wattage_range'' = Some (JObj r) \<longrightarrow>
            power_range_line fr (JObj p) =
              Inr (''*Power Range*: '' @
                   (case map_of r ''min'' of None \<Rightarrow> ''None'' | Some x \<Rightarrow> py_str fr x) @ ''W - '' @
                   (case map_of r ''max'' of None \<Rightarrow> ''None'' | Some x \<Rightarrow> py_str fr x) @ ''W''))
       \<and> (\<exists>line pre post. power_range_line fr (JObj p) = Inr line
              \<and> s = pre @ line @ [CHR 0x0A] @ post)"
proof -
  have a: "map_of p ''wattage_range'' = None \<longrightarrow>
            power_range_line fr (JObj p) = Inr ''*Power Range*: NoneW - NoneW''"
    by (simp add: power_range_line_def and_then_def dict_get_def)
  have b: "\<forall>r. map_of p ''wattage_range'' = Some (JObj r) \<longrightarrow>
            power_range_line fr (JObj p) =
              Inr (''*Power Range*: '' @
                   (case map_of r ''min'' of None \<Rightarrow> ''None'' | Some x \<Rightarrow> py_str fr x) @ ''W - '' @
                   (case map_of r ''max'' of None \<Rightarrow> ''None'' | Some x \<Rightarrow> py_str fr x) @ ''W'')"
    by (auto simp: power_range_line_def and_then_def dict_get_def split: option.splits)
  from summary_has_power_range_line [OF assms(1)] assms(2)
  have c: "\<exists>line pre post. power_range_line fr (JObj p) = Inr line
              \<and> s = pre @ line @ [CHR 0x0A] @ post"
    by simp
  from a b c show ?thesis by blast
qed

theorem C8_power_range_none_witness:
  "power_range_line example_float_repr (JObj [(''wattage_range'', JObj [(''max'', JInt 450)])])
     = Inr ''*Power Range*: NoneW - 450W''
   \<and> power_range_line example_float_repr (JObj [(''series'', JStr ''X'')])
     = Inr ''*Power Range*: NoneW - NoneW''"
proof -
  let ?p = "[(''wattage_range'', JObj [(''max'', JInt 450)])]"
  let ?q = "[(''series'', JStr ''X'')]"
  have p1: "\<exists>s. summary_body example_float_repr (JObj [(''product'', JObj ?p)]) = Inr s"
    by (simp add: summary_body_def format_summary_def max_power_of_def max_efficiency_of_def
        line_defs and_then_def dict_get_def py_join_def str_int_def)
  have p2: "dict_get [(''product'', JObj ?p)] ''product'' (JObj []) = JObj ?p"
    by (simp add: dict_get_def)
  have q1: "\<exists>s. summary_body example_float_repr (JObj [(''product'', JObj ?q)]) = Inr s"
    by (simp add: summary_body_def format_summary_def max_power_of_def max_efficiency_of_def
        line_defs and_then_def dict_get_def py_join_def)
  have q2: "dict_get [(''product'', JObj ?q)] ''product'' (JObj []) = JObj ?q"
    by (simp add: dict_get_def)
  from p1 obtain s where "summary_body example_float_repr (JObj [(''product'', JObj ?p)]) = Inr s" ..
  from C8_power_range_none [OF this p2]
  have a: "power_range_line example_float_repr (JObj ?p) = Inr ''*Power Range*: NoneW - 450W''"
    by (simp add: str_int_def)
  from q1 obtain t where "summary_body example_float_repr (JObj [(''product'', JObj ?q)]) = Inr t" ..
  from C8_power_range_none [OF this q2]
  have b: "power_range_line example_float_repr (JObj ?q) = Inr ''*Power Range*: NoneW - NoneW''"
    by simp
  from a b show ?thesis by simp
qed

section \<open>The maximal efficiency\<close>


lemma py_gt_numbers:
  "is_number x \<Longrightarrow> is_number m \<Longrightarrow> py_gt x m = Inr (number_value m < number_value x)"
  by (cases x; cases m) (simp_all add: number_value_def)

lemma max_loop_numbers:
  "is_number m \<Longrightarrow> list_all is_number xs \<Longrightarrow>
   \<exists>r. max_loop m xs = Inr r \<and> r \<in> set (m # xs)
      \<and> (\<forall>x \<in> set (m # xs). number_value x \<le> number_value r)"
proof (induction xs arbitrary: m)
  case Nil
  then show ?case by simp
next
  case (Cons x xs)
  then have x: "is_number x" and xs: "list_all is_number xs" by simp_all
  let ?m' = "if number_value m < number_value x then x else m"
  have m': "is_number ?m'" using Cons.prems(1) x by simp
  from Cons.IH [OF m' xs] obtain r where
    r: "max_loop ?m' xs = Inr r" "r \<in> set (?m' # xs)"
       "\<forall>y \<in> set (?m' # xs). number_value y \<le> number_value r"
    by blast
  have run: "max_loop m (x # xs) = Inr r"
    using r(1) by (simp add: py_gt_numbers [OF x Cons.prems(1)])
  have mem: "r \<in> set (m # x # xs)" using r(2) by (auto split: if_splits)
  have "number_value ?m' \<le> number_value r" using r(3) by simp
  then have "number_value m \<le> number_value r" "number_value x \<le> number_value r"
    by (auto split: if_splits)
  with r(3) have "\<forall>y \<in> set (m # x # xs). number_value y \<le> number_value r" by auto
  with run mem show ?case by blast
qed

lemma efficiency_values_ok:
  "list_all variant_ok vs \<Longrightarrow> efficiency_values vs = Inr (efficiencies vs)"
proof (induction vs)
  case Nil
  then show ?case by (simp add: efficiencies_def)
next
  case (Cons v vs)
  then obtain f where v: "v = JObj f" by (cases v) simp_all
  with Cons show ?case
    by (auto simp: efficiencies_def and_then_def dict_get_def split: option.splits)
qed

lemma efficiencies_numbers:
  "list_all variant_ok vs \<Longrightarrow> list_all is_number (efficiencies vs)"
proof (induction vs)
  case Nil
  then show ?case by (simp add: efficiencies_def)
next
  case (Cons v vs)
  then obtain f where v: "v = JObj f" by (cases v) simp_all
  with Cons show ?case
    by (auto simp: efficiencies_def split: option.splits)
qed

lemma max_efficiency_ok:
  assumes "dict_get e ''power_variants'' (JArr []) = JArr vs"
    and "list_all variant_ok vs"
  shows "\<exists>m. max_efficiency_of (JObj e) = Inr m
         \<and> (if efficiencies vs = [] then m = JStr ''N/A''
             else m \<in> set (efficiencies vs)
                \<and> (\<forall>x \<in> set (efficiencies vs). number_value x \<le> number_value m))"
proof (cases "efficiencies vs")
  case Nil
  then show ?thesis
    using assms by (simp add: max_efficiency_of_def and_then_def efficiency_values_ok)
next
  case (Cons x xs)
  from efficiencies_numbers [OF assms(2)] Cons
  have "is_number x" "list_all is_number xs" by simp_all
  from max_loop_numbers [OF this] obtain r where
    "max_loop x xs = Inr r" "r \<in> set (x # xs)"
    "\<forall>y \<in> set (x # xs). number_value y \<le> number_value r"
    by blast
  then show ?thesis
    using assms Cons by (simp add: max_efficiency_of_def and_then_def efficiency_values_ok)
qed



section \<open>A null \<^verbatim>\<open>wattage_range\<close>\<close>

lemma join_items_strs: "list_all is_str xs \<Longrightarrow> \<exists>ss. join_items i xs = Inr ss"
proof (induction xs arbitrary: i)
  case Nil
  then show ?case by simp
next
  case (Cons x xs)
  then obtain t where x: "x = JStr t" by (cases x) simp_all
  from Cons obtain ss where "join_items (Suc i) xs = Inr ss" by fastforce
  with x show ?case by (simp add: and_then_def)
qed

lemma shape_lines:
  assumes "shape_ok d" and "dict_get d ''product'' (JObj []) = JObj p"
  shows "\<exists>e m t y l4 me l9 l10 l11 l12 l15 l16 l17.
           dict_get d ''electrical_specs'' (JObj []) = JObj e
         \<and> dict_get d ''mechanical_specs'' (JObj []) = JObj m
         \<and> dict_get d ''temperature_specs'' (JObj []) = JObj t
         \<and> dict_get d ''warranty'' (JObj []) = JObj y
         \<and> models_line (JObj p) = Inr l4
         \<and> max_efficiency_of (JObj e) = Inr me
         \<and> voltage_line fr (JObj e) = Inr l9
         \<and> dimensions_line fr (JObj m) = Inr l10
         \<and> weight_line fr (JObj m) = Inr l11
         \<and> cell_type_line fr (JObj m) = Inr l12
         \<and> operating_temp_line fr (JObj t) = Inr l15
         \<and> temp_coefficient_line fr (JObj t) = Inr l16
         \<and> warranty_line fr (JObj y) = Inr l17"
proof -
  from assms obtain xs where xs: "dict_get p ''model_types'' (JArr []) = JArr xs"
    and strs: "list_all is_str xs"
    by (cases "dict_get p ''model_types'' (JArr [])") (simp_all add: shape_ok_def)
  from join_items_strs [OF strs, of 0] obtain ss where "join_items 0 xs = Inr ss" by blast
  with xs have l4: "models_line (JObj p) = Inr (''*Models*: '' @ join '', '' ss)"
    by (simp add: models_line_def py_join_def and_then_def)
  from assms(1) obtain e where e: "dict_get d ''electrical_specs'' (JObj []) = JObj e"
    and pv: "is_variant_list (dict_get e ''power_variants'' (JArr []))"
    by (cases "dict_get d ''electrical_specs'' (JObj [])") (simp_all add: shape_ok_def)
  from pv obtain vs where vs: "dict_get e ''power_variants'' (JArr []) = JArr vs"
    and ok: "list_all variant_ok vs"
    by (cases "dict_get e ''power_variants'' (JArr [])") simp_all
  from max_efficiency_ok [OF vs ok] obtain me where me: "max_efficiency_of (JObj e) = Inr me"
    by blast
  from assms(1) obtain m where m: "dict_get d ''mechanical_specs'' (JObj []) = JObj m"
    by (cases "dict_get d ''mechanical_specs'' (JObj [])") (simp_all add: shape_ok_def)
  from assms(1) obtain y where y: "dict_get d ''warranty'' (JObj []) = JObj y"
    by (cases "dict_get d ''warranty'' (JObj [])") (simp_all add: shape_ok_def)
  from assms(1) obtain t where t: "dict_get d ''temperature_specs'' (JObj []) = JObj t"
    and rg: "is_obj (dict_get t ''operating_range_c'' (JObj []))"
    by (cases "dict_get d ''temperature_specs'' (JObj [])") (simp_all add: shape_ok_def)
  from rg obtain r where r: "dict_get t ''operating_range_c'' (JObj []) = JObj r"
    by (cases "dict_get t ''operating_range_c'' (JObj [])") simp_all
  have l15: "\<exists>l. operating_temp_line fr (JObj t) = Inr l"
    using r by (simp add: operating_temp_line_def and_then_def)
  have rest: "\<exists>l. voltage_line fr (JObj e) = Inr l" "\<exists>l. dimensions_line fr (JObj m) = Inr l"
    "\<exists>l. weight_line fr (JObj m) = Inr l" "\<exists>l. cell_type_line fr (JObj m) = Inr l"
    "\<exists>l. temp_coefficient_line fr (JObj t) = Inr l" "\<exists>l. warranty_line fr (JObj y) = Inr l"
    by (simp_all add: line_defs and_then_def)
  from l4 e m t y me l15 rest show ?thesis by blast
qed

lemma summary_absent_range:
  assumes "shape_ok d" and "dict_get d ''product'' (JObj []) = JObj p"
    and "map_of p ''wattage_range'' = None"
  shows "\<exists>pre post. summary_body fr (JObj d)
           = Inr (pre @ ''*Power Range*: NoneW - NoneW'' @ [CHR 0x0A] @ post)"
proof -
  from shape_lines [OF assms(1,2), of fr] obtain e m t y l4 me l9 l10 l11 l12 l15 l16 l17 where
    parts: "dict_get d ''electrical_specs'' (JObj []) = JObj e"
      "dict_get d ''mechanical_specs'' (JObj []) = JObj m"
      "dict_get d ''temperature_specs'' (JObj []) = JObj t"
      "dict_get d ''warranty'' (JObj []) = JObj y"
      "models_line (JObj p) = Inr l4"
      "max_efficiency_of (JObj e) = Inr me"
      "voltage_line fr (JObj e) = Inr l9"
      "dimensions_line fr (JObj m) = Inr l10"
      "weight_line fr (JObj m) = Inr l11"
      "cell_type_line fr (JObj m) = Inr l12"
      "operating_temp_line fr (JObj t) = Inr l15"
      "temp_coefficient_line fr (JObj t) = Inr l16"
      "warranty_line fr (JObj y) = Inr l17"
    by blast
  have wr: "dict_get p ''wattage_range'' JNull = JNull"
    "dict_get p ''wattage_range'' (JObj []) = JObj []"
    using assms(3) by (simp_all add: dict_get_def)
  have mp: "max_power_of fr (JObj p) = Inr ''N/A''"
    using wr by (simp add: max_power_of_def and_then_def)
  have pr: "power_range_line fr (JObj p) = Inr ''*Power Range*: NoneW - NoneW''"
    using wr by (simp add: power_range_line_def and_then_def) (simp add: dict_get_def)
  have hl: "\<exists>l. header_line fr (JObj p) = Inr l"
    by (simp add: header_line_def and_then_def)
  then obtain l3 where l3: "header_line fr (JObj p) = Inr l3" ..
  have "\<exists>s. summary_body fr (JObj d) = Inr s"
    using assms(2) parts mp pr l3
    by (simp add: summary_body_def format_summary_def and_then_def)
  then obtain s where s: "summary_body fr (JObj d) = Inr s" ..
  from summary_has_power_range_line [OF s] assms(2) pr s show ?thesis by auto
qed

lemma summary_null_range:
  assumes "shape_ok d" and "dict_get d ''product'' (JObj []) = JObj p"
    and "map_of p ''wattage_range'' = Some JNull"
  shows "summary_body fr (JObj d) = Inl (no_attribute JNull ''get'')"
proof -
  from shape_lines [OF assms(1,2), of fr] obtain e m t y l4 me l9 l10 l11 l12 l15 l16 l17 where
    parts: "dict_get d ''electrical_specs'' (JObj []) = JObj e"
      "dict_get d ''mechanical_specs'' (JObj []) = JObj m"
      "dict_get d ''temperature_specs'' (JObj []) = JObj t"
      "dict_get d ''warranty'' (JObj []) = JObj y"
      "models_line (JObj p) = Inr l4"
      "max_efficiency_of (JObj e) = Inr me"
    by blast
  have wr: "dict_get p ''wattage_range'' JNull = JNull"
    "dict_get p ''wattage_range'' (JObj []) = JNull"
    using assms(3) by (simp_all add: dict_get_def)
  have mp: "max_power_of fr (JObj p) = Inr ''N/A''"
    using wr by (simp add: max_power_of_def and_then_def)
  have pr: "power_range_line fr (JObj p) = Inl (no_attribute JNull ''get'')"
    using wr by (simp add: power_range_line_def and_then_def)
  have hl: "\<exists>l. header_line fr (JObj p) = Inr l"
    by (simp add: header_line_def and_then_def)
  then obtain l3 where l3: "header_line fr (JObj p) = Inr l3" ..
  show ?thesis
    using assms(2) parts mp pr l3
    by (simp add: summary_body_def format_summary_def and_then_def)
qed

text \<open>
  C10. When \<^verbatim>\<open>product.wattage_range\<close> is present and null, the body of
  \<^verbatim>\<open>generate_summary\<close> raises and the function returns the fallback string with the
  message of the exception; when the other parts of the record have the shapes of the
  data model, the exception is that of calling \<^verbatim>\<open>get\<close> on \<^verbatim>\<open>None\<close> in the power range
  line. When \<^verbatim>\<open>wattage_range\<close> is absent instead, from a record of those shapes,
  \<^verbatim>\<open>generate_summary\<close> returns a formatted summary whose power range line has
  \<^verbatim>\<open>None\<close> for both values.
\<close>

theorem C10_null_wattage_range:
  assumes "map_of d ''product'' = Some (JObj p)"
    and "map_of p ''wattage_range'' = Some JNull"
  shows "(\<exists>e. summary_body fr (JObj d) = Inl e
            \<and> generate_summary fr (JObj d) = ''Error generating summary: '' @ exc_msg e)
       \<and> power_range_line fr (JObj p) = Inl (no_attribute JNull ''get'')
       \<and> power_range_line fr (JObj (filter (\<lambda>kv. fst kv \<noteq> ''wattage_range'') p))
           = Inr ''*Power Range*: NoneW - NoneW''
       \<and> (shape_ok d \<longrightarrow>
             generate_summary fr (JObj d)
               = ''Error generating summary: '' @ exc_msg (no_attribute JNull ''get''))
       \<and> (\<forall>d' p'. shape_ok d' \<and> dict_get d' ''product'' (JObj []) = JObj p'
                  \<and> map_of p' ''wattage_range'' = None \<longrightarrow>
             (\<exists>pre post. summary_body fr (JObj d')
                            = Inr (pre @ ''*Power Range*: NoneW - NoneW'' @ [CHR 0x0A] @ post)
                        \<and> generate_summary fr (JObj d')
                            = pre @ ''*Power Range*: NoneW - NoneW'' @ [CHR 0x0A] @ post))"
proof -
  have line: "power_range_line fr (JObj p) = Inl (no_attribute JNull ''get'')"
    using assms by (simp add: power_range_line_def and_then_def dict_get_def)
  then have "\<exists>e. summary_body fr (JObj d) = Inl e"
    using assms
    by (auto simp: summary_body_def format_summary_def and_then_def dict_get_def
        split: sum.splits)
  then have fallback: "\<exists>e. summary_body fr (JObj d) = Inl e
      \<and> generate_summary fr (JObj d) = ''Error generating summary: '' @ exc_msg e"
    by (auto simp: generate_summary_def)
  have "map_of (filter (\<lambda>kv. fst kv \<noteq> ''wattage_range'') p) ''wattage_range'' = None"
    by (auto simp: map_of_eq_None_iff)
  then have removed: "power_range_line fr (JObj (filter (\<lambda>kv. fst kv \<noteq> ''wattage_range'') p))
           = Inr ''*Power Range*: NoneW - NoneW''"
    by (simp add: power_range_line_def and_then_def dict_get_def)
  have prod: "dict_get d ''product'' (JObj []) = JObj p"
    using assms(1) by (simp add: dict_get_def)
  have null: "shape_ok d \<longrightarrow>
             generate_summary fr (JObj d)
               = ''Error generating summary: '' @ exc_msg (no_attribute JNull ''get'')"
    using summary_null_range [OF _ prod assms(2), of fr] by (simp add: generate_summary_def)
  have absent: "\<forall>d' p'. shape_ok d' \<and> dict_get d' ''product'' (JObj []) = JObj p'
                  \<and> map_of p' ''wattage_range'' = None \<longrightarrow>
             (\<exists>pre post. summary_body fr (JObj d')
                            = Inr (pre @ ''*Power Range*: NoneW - NoneW'' @ [CHR 0x0A] @ post)
                        \<and> generate_summary fr (JObj d')
                            = pre @ ''*Power Range*: NoneW - NoneW'' @ [CHR 0x0A] @ post)"
  proof (intro allI impI)
    fix d' p'
    assume h: "shape_ok d' \<and> dict_get d' ''product'' (JObj []) = JObj p'
                  \<and> map_of p' ''wattage_range'' = None"
    then have "\<exists>pre post. summary_body fr (JObj d')
           = Inr (pre @ ''*Power Range*: NoneW - NoneW'' @ [CHR 0x0A] @ post)"
      using summary_absent_range [of d' p' fr] by blast
    then obtain pre post where sb: "summary_body fr (JObj d')
           = Inr (pre @ ''*Power Range*: NoneW - NoneW'' @ [CHR 0x0A] @ post)"
      by blast
    then have "generate_summary fr (JObj d')
           = pre @ ''*Power Range*: NoneW - NoneW'' @ [CHR 0x0A] @ post"
      by (simp add: generate_summary_def)
    with sb show "\<exists>pre post. summary_body fr (JObj d')
                            = Inr (pre @ ''*Power Range*: NoneW - NoneW'' @ [CHR 0x0A] @ post)
                        \<and> generate_summary fr (JObj d')
                            = pre @ ''*Power Range*: NoneW - NoneW'' @ [CHR 0x0A] @ post"
      by blast
  qed
  from fallback line removed null absent show ?thesis by blast
qed

text \<open>
  A product with a null \<^verbatim>\<open>wattage_range\<close> gives the fallback string; the empty product
  gives the template with its placeholders.
\<close>

theorem C10_null_wattage_range_witness:
  "generate_summary example_float_repr (JObj [(''product'', JObj [(''wattage_range'', JNull)])])
     = ''Error generating summary: '' @ [CHR 0x27] @ ''NoneType'' @ [CHR 0x27] @
       '' object has no attribute '' @ [CHR 0x27] @ ''get'' @ [CHR 0x27]
   \<and> (\<exists>pre post. generate_summary example_float_repr (JObj [(''product'', JObj [])])
          = pre @ ''*Power Range*: NoneW - NoneW'' @ [CHR 0x0A] @ post)
   \<and> generate_summary example_float_repr (JObj [(''product'', JObj [])]) = default_summary"
proof -
  let ?d = "[(''product'', JObj [(''wattage_range'', JNull)])]"
  let ?d' = "[(''product'', JObj [])]"
  have a: "map_of ?d ''product'' = Some (JObj [(''wattage_range'', JNull)])" by simp
  have b: "map_of [(''wattage_range'', JNull)] ''wattage_range'' = Some JNull" by simp
  note inst = C10_null_wattage_range [OF a b, of example_float_repr]
  have "shape_ok ?d" by (simp add: shape_ok_def dict_get_def)
  with inst have first: "generate_summary example_float_repr (JObj ?d)
      = ''Error generating summary: '' @ exc_msg (no_attribute JNull ''get'')"
    by blast
  have "shape_ok ?d' \<and> dict_get ?d' ''product'' (JObj []) = JObj []
      \<and> map_of [] ''wattage_range'' = (None :: json option)"
    by (simp add: shape_ok_def dict_get_def)
  with inst have second: "\<exists>pre post. generate_summary example_float_repr (JObj ?d')
          = pre @ ''*Power Range*: NoneW - NoneW'' @ [CHR 0x0A] @ post"
    by blast
  have third: "generate_summary example_float_repr (JObj ?d') = default_summary"
    by (simp add: generate_summary_def summary_body_def format_summary_def max_power_of_def
        max_efficiency_of_def line_defs and_then_def dict_get_def py_join_def default_summary_def)
  from first second third show ?thesis by (simp add: no_attribute_def)
qed

section \<open>The text is extracted twice\<close>


lemma parse_opens:
  "parse_with_bedrock env t (w\<lparr>opens := n\<rparr>)
     = (fst (parse_with_bedrock env t w), (snd (parse_with_bedrock env t w))\<lparr>opens := n\<rparr>)"
  by (simp add: parse_with_bedrock_def Let_def print_err_def
      split: option.splits sum.splits prod.splits raised.splits exception.splits exc_class.splits)

lemma parse_effects:
  "opens (snd (parse_with_bedrock env t w)) = opens w"
  by (simp add: parse_with_bedrock_def Let_def print_err_def
      split: option.splits sum.splits prod.splits raised.splits exception.splits exc_class.splits)

lemma extract_Inr:
  "extract_text_from_pdf env p w = (Inr t, w') \<Longrightarrow> w' = w\<lparr>opens := Suc (opens w)\<rparr>"
  by (auto simp: extract_text_from_pdf_def Let_def split: sum.splits raised.splits)

lemma extract_deterministic:
  "pdf_open env n p = pdf_open env (opens w) p \<Longrightarrow>
   extract_text_from_pdf env p (w\<lparr>opens := n\<rparr>)
     = (fst (extract_text_from_pdf env p w), (snd (extract_text_from_pdf env p w))\<lparr>opens := Suc n\<rparr>)"
  by (simp add: extract_text_from_pdf_def Let_def print_err_def split: sum.splits raised.splits)

text \<open>
  C9. \<^verbatim>\<open>process_pdf\<close> calls \<^verbatim>\<open>extract_text_from_pdf\<close> twice on the same path and uses
  the second text only. When opening the file gives the second time what it gave the
  first time, \<^verbatim>\<open>process_pdf\<close> ends as the pipeline that extracts once does: the same
  result or the same error, the same requests to the model and the same lines on
  standard error. Of the effects only the number of times the file was opened differs:
  two against one when a result is returned.
\<close>


theorem C9_single_extraction:
  assumes det: "pdf_open env (Suc (opens w)) p = pdf_open env (opens w) p"
  shows "fst (process_pdf env p w) = fst (process_pdf_once env p w)
       \<and> requests (snd (process_pdf env p w)) = requests (snd (process_pdf_once env p w))
       \<and> stderr (snd (process_pdf env p w)) = stderr (snd (process_pdf_once env p w))
       \<and> (\<forall>out. fst (process_pdf env p w) = Inr out \<longrightarrow>
             opens (snd (process_pdf env p w)) = opens w + 2
           \<and> opens (snd (process_pdf_once env p w)) = opens w + 1)"
proof (cases "path_exists env p")
  case False
  then show ?thesis by (simp add: process_pdf_def process_pdf_once_def)
next
  case True
  obtain r w1 where first: "extract_text_from_pdf env p w = (r, w1)"
    by (cases "extract_text_from_pdf env p w")
  show ?thesis
  proof (cases r)
    case (Inl x)
    with True first show ?thesis by (simp add: process_pdf_def process_pdf_once_def)
  next
    case (Inr t)
    with first have w1: "w1 = w\<lparr>opens := Suc (opens w)\<rparr>" by (simp add: extract_Inr)
    have second: "extract_text_from_pdf env p w1 = (Inr t, w1\<lparr>opens := Suc (Suc (opens w))\<rparr>)"
      using extract_deterministic [OF det] first Inr unfolding w1 by simp
    obtain q w3 where parse: "parse_with_bedrock env t w1 = (q, w3)"
      by (cases "parse_with_bedrock env t w1")
    have parse2: "parse_with_bedrock env t (w1\<lparr>opens := Suc (Suc (opens w))\<rparr>)
        = (q, w3\<lparr>opens := Suc (Suc (opens w))\<rparr>)"
      using parse by (simp add: parse_opens)
    have o3: "opens w3 = Suc (opens w)"
      using parse_effects [of env t w1] parse w1 by simp
    show ?thesis
      using True first Inr second parse parse2 o3
      by (simp add: process_pdf_def process_pdf_once_def Let_def split: sum.splits)
  qed
qed

theorem C9_single_extraction_witness:
  "fst (process_pdf (example_env ''{}'' (JObj [])) ''a.pdf'' world0)
     = fst (process_pdf_once (example_env ''{}'' (JObj [])) ''a.pdf'' world0)
   \<and> fst (process_pdf_once (example_env ''{}'' (JObj [])) ''a.pdf'' world0)
     = Inr (JObj [], default_summary)
   \<and> opens (snd (process_pdf (example_env ''{}'' (JObj [])) ''a.pdf'' world0)) = 2
   \<and> opens (snd (process_pdf_once (example_env ''{}'' (JObj [])) ''a.pdf'' world0)) = 1"
proof -
  let ?env = "example_env ''{}'' (JObj [])"
  have det: "pdf_open ?env (Suc (opens world0)) ''a.pdf'' = pdf_open ?env (opens world0) ''a.pdf''"
    by (simp add: example_env_def)
  have once: "fst (process_pdf_once ?env ''a.pdf'' world0) = Inr (JObj [], default_summary)"
    by (simp add: process_pdf_once_def example_extract example_parse clean_braces
        ordered_keys_def and_then_def generate_summary_def summary_empty)
       (simp add: example_env_def)
  from C9_single_extraction [OF det] once show ?thesis
    by (simp add: world0_def)
qed

section \<open>A file that cannot be read\<close>










section \<open>Errors of the summary are recovered, all others abort\<close>















section \<open>Errors of an upload\<close>

text \<open>
  An \<^verbatim>\<open>Exception\<close> that leaves the \<^verbatim>\<open>try\<close> block of \<^verbatim>\<open>upload_file\<close> becomes the error
  envelope with status 500 and the message of the exception.
\<close>

lemma upload_exception_enveloped:
  assumes "filename file \<noteq> []"
    and "endswith (lower (filename file)) ''.pdf''"
    and "upload_try env w = (Inl (Raise e), temp_path, w1)"
  shows "fst (upload_file env (Some file) w) = Inr (error_envelope 500 (exc_msg e))"
  using assms by (simp add: upload_file_def Let_def)

text \<open>
  C2. The claim does not hold of \<^verbatim>\<open>upload_file\<close>: for an uploaded file that cannot be
  parsed, and for a request that the model endpoint refuses, the processing ends with
  \<^verbatim>\<open>SystemExit\<close> (from \<^verbatim>\<open>sys.exit(1)\<close> in \<^verbatim>\<open>extract_text_from_pdf\<close> and
  \<^verbatim>\<open>parse_with_bedrock\<close>), which \<^verbatim>\<open>except Exception\<close> does not catch: \<^verbatim>\<open>upload_file\<close>
  returns no response, the \<^verbatim>\<open>SystemExit\<close> leaves it after the temporary file is removed.
\<close>


theorem C2_upload_error_escapes:
  "upload_file corrupt_pdf_env (Some \<lparr>filename = ''datasheet.pdf''\<rparr>) world0
     = (Inl (SystemExit 1),
        \<lparr>opens = 1, requests = [],
         stderr = [''Error reading PDF /tmp/tmpa1.pdf: No /Root object! - Is this really a PDF?''],
         removed = [''/tmp/tmpa1.pdf'']\<rparr>)
   \<and> fst (upload_file throttled_env (Some \<lparr>filename = ''datasheet.pdf''\<rparr>) world0)
     = Inl (SystemExit 1)
   \<and> \<not> is_Exception (SystemExit 1)"
  by (simp add: upload_file_def upload_try_def process_pdf_def extract_text_from_pdf_def
      parse_with_bedrock_def bedrock_try_def result_text_of_def
      corrupt_pdf_env_def throttled_env_def example_env_def and_then_def print_err_def world0_def
      endswith_def lower_def lower_char_def Let_def)

end
